theory Spec2Isabelle
  imports Complex_Main "HOL-Library.Sublist"
begin

section \<open>gobank: the account store and the HTTP gateway\<close>

text \<open>
  A shallow embedding of \<^verbatim>\<open>storage.go\<close> (the PostgresStore) and \<^verbatim>\<open>api.go\<close> (the
  APIServer with its JWT gate). Go's \<^verbatim>\<open>int\<close> and \<^verbatim>\<open>int64\<close> are modelled as \<open>int\<close>: the
  program never does arithmetic on them, and the one place where the 64-bit range is
  visible (\<^verbatim>\<open>strconv.Atoi\<close>) writes the range check out. A \<^verbatim>\<open>float64\<close> is modelled by the
  real number it denotes (JSON cannot carry NaN or an infinity). Strings are byte lists.
\<close>

subsection \<open>Data model\<close>

text \<open>
  Modelled from the spec: the file that declares the types \<^verbatim>\<open>Account\<close>,
  \<^verbatim>\<open>CreateAccountRequest\<close> and \<^verbatim>\<open>TransferRequest\<close> is missing. The fields of Account are
  the ones \<^verbatim>\<open>scanIntoAccount\<close> fills, in the order of the table's columns; the two request
  types have the fields of the spec's section 6 (\<open>firstName\<close>, \<open>lastName\<close>; \<open>toAccount\<close>,
  \<open>amount\<close>). A timestamp is an abstract instant (an integer).
\<close>

record Account =
  ID :: int
  FirstName :: string
  LastName :: string
  Number :: int
  Balance :: int
  CreateAt :: int

record CreateAccountRequest =
  req_FirstName :: string
  req_LastName :: string

record TransferRequest =
  ToAccount :: int
  Amount :: int

subsection \<open>Errors\<close>

text \<open>
  A Go \<^verbatim>\<open>error\<close> is a value with a message. The constructor records where the value was
  made: by \<^verbatim>\<open>fmt.Errorf\<close> in this program, by the database driver, by the JSON decoder or
  by the JWT library.
\<close>

datatype error = Errorf string | DriverError string | DecodeError string | JWTError string

fun Error :: "error \<Rightarrow> string" where
  "Error (Errorf m) = m"
| "Error (DriverError m) = m"
| "Error (DecodeError m) = m"
| "Error (JWTError m) = m"

subsection \<open>Formatting and parsing integers\<close>

text \<open>The verb \<^verbatim>\<open>%d\<close> of \<^verbatim>\<open>fmt.Errorf\<close>: decimal digits, a minus sign for a negative value.\<close>

fun digits :: "nat \<Rightarrow> string" where
  "digits n = (if n < 10 then [''0123456789'' ! n]
               else digits (n div 10) @ [''0123456789'' ! (n mod 10)])"

declare digits.simps [simp del]

definition fmt_d :: "int \<Rightarrow> string" where
  "fmt_d i = (if i < 0 then CHR ''-'' # digits (nat (- i)) else digits (nat i))"

text \<open>
  \<^verbatim>\<open>strconv.Atoi\<close> on a 64-bit platform. It returns a value together with the error: 0
  with a syntax error (empty string, a sign alone, a byte that is no decimal digit), the
  nearest bound with a range error. The digits are read from the left, and a value
  that leaves the unsigned 64-bit range stops the scan at once (as \<^verbatim>\<open>ParseUint\<close> does),
  before the bytes after it are looked at.
\<close>

datatype NumError = ErrSyntax | ErrRange

definition is_digit :: "char \<Rightarrow> bool" where
  "is_digit c = (48 \<le> (of_char c :: nat) \<and> (of_char c :: nat) \<le> 57)"

fun ParseUint :: "nat \<Rightarrow> string \<Rightarrow> nat \<times> NumError option" where
  "ParseUint n [] = (n, None)"
| "ParseUint n (c # cs) =
     (if \<not> is_digit c then (0, Some ErrSyntax)
      else if 2 ^ 64 \<le> 10 * n + (of_char c - 48) then (2 ^ 64 - 1, Some ErrRange)
      else ParseUint (10 * n + (of_char c - 48)) cs)"

definition Atoi :: "string \<Rightarrow> int \<times> NumError option" where
  "Atoi s =
     (let neg = (s \<noteq> [] \<and> hd s = CHR ''-'');
          ds = (if s \<noteq> [] \<and> (hd s = CHR ''+'' \<or> hd s = CHR ''-'') then tl s else s)
      in if ds = [] then (0, Some ErrSyntax)
         else (case ParseUint 0 ds of
                 (un, Some ErrSyntax) \<Rightarrow> (0, Some ErrSyntax)
               | (un, e) \<Rightarrow>
                   if \<not> neg \<and> 2 ^ 63 \<le> int un then (2 ^ 63 - 1, Some ErrRange)
                   else if neg \<and> 2 ^ 63 < int un then (- (2 ^ 63), Some ErrRange)
                   else (if neg then - int un else int un, e)))"

subsection \<open>The relational backend\<close>

text \<open>
  The statements the store sends, with their parameters:
  \<^item> \<open>CreateTable\<close>: \<^verbatim>\<open>create table if not exists account(id serial primary key,
    first_name varchar(50), last_name varchar(50), number serial, balance serial,
    created_at timestamp)\<close>;
  \<^item> \<open>SelectAll\<close>: \<^verbatim>\<open>select * from account\<close>;
  \<^item> \<open>SelectByID id\<close>: \<^verbatim>\<open>select * from account where id = $1\<close>;
  \<^item> \<open>Insert first last number balance created\<close>: \<^verbatim>\<open>insert into account (first_name,
    last_name, number, balance, created_at) values ($1,$2,$3,$4,$5)\<close>. The columns
    \<open>number\<close> and \<open>balance\<close> are \<open>serial\<close>: a column the insert lists takes the value it is
    given (\<open>Some\<close>), a column it leaves out (\<open>None\<close>) takes the next value of its sequence.
    The column \<open>id\<close> is never listed;
  \<^item> \<open>UpdateNames id first last\<close>: \<^verbatim>\<open>update account set first_name = $2, last_name=$3
    where id = $1\<close>;
  \<^item> \<open>DeleteByID id\<close>: \<^verbatim>\<open>delete from account where id = $1\<close>;
  \<^item> \<open>UpdateBalance amount id\<close>: \<^verbatim>\<open>update account set balance = $1 where id = $2\<close>.
\<close>

datatype stmt =
    CreateTable
  | SelectAll
  | SelectByID int
  | Insert string string "int option" "int option" int
  | UpdateNames int string string
  | DeleteByID int
  | UpdateBalance int int

text \<open>
  The state of the backend: the rows of table \<open>account\<close> in scan order, the last value
  each of the three sequences has handed out (0 before the first), and \<open>fault\<close>, which
  tells for every statement whether the backend or the driver answers it with an error
  (and with which message) instead of executing it: a lost connection, a value the
  column's type cannot hold. A refused statement leaves the state as it is. A
  statement that is executed stores its parameters as they are given.
\<close>

record db =
  rows :: "Account list"
  id_seq :: int
  number_seq :: int
  balance_seq :: int
  fault :: "stmt \<Rightarrow> string option"

text \<open>
  A \<open>serial\<close> column: the value given, or the next value of the sequence, which ends at
  \<open>2147483647\<close>. The result is the column's value and the sequence's new last value.
\<close>

definition serial :: "int option \<Rightarrow> int \<Rightarrow> (int \<times> int) option" where
  "serial given seq =
     (case given of
        Some v \<Rightarrow> Some (v, seq)
      | None \<Rightarrow> if seq < 2147483647 then Some (seq + 1, seq + 1) else None)"

text \<open>
  What a statement does when the backend executes it: the new state, and the rows of
  the result set or the backend's error. The table exists in every state, so
  \<open>CreateTable\<close> (\<open>if not exists\<close>) changes nothing. \<open>id\<close> is the primary key: an insert
  whose id is taken is rejected (the sequence keeps the value it handed out).
\<close>

fun run :: "stmt \<Rightarrow> db \<Rightarrow> db \<times> (string + Account list)" where
  "run CreateTable d = (d, Inr [])"
| "run SelectAll d = (d, Inr (rows d))"
| "run (SelectByID i) d = (d, Inr (filter (\<lambda>a. ID a = i) (rows d)))"
| "run (Insert f l n b c) d =
     (case serial None (id_seq d) of
        None \<Rightarrow> (d, Inl ''nextval: reached maximum value of sequence'')
      | Some (i, s1) \<Rightarrow>
          (case serial n (number_seq d) of
             None \<Rightarrow> (d\<lparr>id_seq := s1\<rparr>, Inl ''nextval: reached maximum value of sequence'')
           | Some (nv, s2) \<Rightarrow>
               (case serial b (balance_seq d) of
                  None \<Rightarrow> (d\<lparr>id_seq := s1, number_seq := s2\<rparr>,
                            Inl ''nextval: reached maximum value of sequence'')
                | Some (bv, s3) \<Rightarrow>
                    if i \<in> set (map ID (rows d))
                    then (d\<lparr>id_seq := s1, number_seq := s2, balance_seq := s3\<rparr>,
                          Inl ''duplicate key value violates unique constraint'')
                    else (d\<lparr>rows := rows d @
                                [\<lparr>ID = i, FirstName = f, LastName = l, Number = nv,
                                  Balance = bv, CreateAt = c\<rparr>],
                             id_seq := s1, number_seq := s2, balance_seq := s3\<rparr>,
                          Inr []))))"
| "run (UpdateNames i f l) d =
     (d\<lparr>rows := map (\<lambda>a. if ID a = i then a\<lparr>FirstName := f, LastName := l\<rparr> else a) (rows d)\<rparr>,
      Inr [])"
| "run (DeleteByID i) d = (d\<lparr>rows := filter (\<lambda>a. ID a \<noteq> i) (rows d)\<rparr>, Inr [])"
| "run (UpdateBalance amt i) d =
     (d\<lparr>rows := map (\<lambda>a. if ID a = i then a\<lparr>Balance := amt\<rparr> else a) (rows d)\<rparr>, Inr [])"

text \<open>\<^verbatim>\<open>s.db.Query(query, args...)\<close> and \<^verbatim>\<open>s.db.Exec(query)\<close>: the rows, or the error.\<close>

definition Query :: "db \<Rightarrow> stmt \<Rightarrow> db \<times> (error + Account list)" where
  "Query d q =
     (case fault d q of
        Some m \<Rightarrow> (d, Inl (DriverError m))
      | None \<Rightarrow>
          (case run q d of
             (d', Inl m) \<Rightarrow> (d', Inl (DriverError m))
           | (d', Inr rs) \<Rightarrow> (d', Inr rs)))"

subsection \<open>storage.go: PostgresStore\<close>

text \<open>
  Every method takes the state of the backend and returns the new one with its result.
  A row of the model has a value of the right type in each column, so \<^verbatim>\<open>rows.Scan\<close>
  never fails on it.
\<close>

definition createTableAccount :: "db \<Rightarrow> db \<times> error option" where
  "createTableAccount d =
     (case Query d CreateTable of (d', Inl err) \<Rightarrow> (d', Some err) | (d', Inr _) \<Rightarrow> (d', None))"

definition Init :: "db \<Rightarrow> db \<times> error option" where
  "Init d = createTableAccount d"

definition scanIntoAccount :: "Account \<Rightarrow> Account \<times> error option" where
  "scanIntoAccount row = (row, None)"

fun GetAccounts_loop :: "Account list \<Rightarrow> Account list \<Rightarrow> error + Account list" where
  "GetAccounts_loop [] accounts = Inr accounts"
| "GetAccounts_loop (row # rest) accounts =
     (case scanIntoAccount row of
        (account, Some err) \<Rightarrow> Inl err
      | (account, None) \<Rightarrow> GetAccounts_loop rest (accounts @ [account]))"

definition GetAccounts :: "db \<Rightarrow> db \<times> (error + Account list)" where
  "GetAccounts d =
     (case Query d SelectAll of
        (d', Inl err) \<Rightarrow> (d', Inl err)
      | (d', Inr rs) \<Rightarrow> (d', GetAccounts_loop rs []))"

text \<open>
  The loop \<^verbatim>\<open>for rows.Next() { return scanIntoAccount(rows) }\<close> returns at the first row;
  with no row the method falls through to \<^verbatim>\<open>fmt.Errorf("account %d not found", id)\<close>.
\<close>

definition first_row :: "Account list \<Rightarrow> int \<Rightarrow> error + Account" where
  "first_row rs i =
     (case rs of
        row # _ \<Rightarrow> (case scanIntoAccount row of
                      (account, Some err) \<Rightarrow> Inl err
                    | (account, None) \<Rightarrow> Inr account)
      | [] \<Rightarrow> Inl (Errorf (''account '' @ fmt_d i @ '' not found'')))"

definition GetAccountByID :: "db \<Rightarrow> int \<Rightarrow> db \<times> (error + Account)" where
  "GetAccountByID d i =
     (case Query d (SelectByID i) of
        (d', Inl err) \<Rightarrow> (d', Inl err)
      | (d', Inr rs) \<Rightarrow> (d', first_row rs i))"

definition CreateAccount :: "db \<Rightarrow> Account \<Rightarrow> db \<times> error option" where
  "CreateAccount d account =
     (case Query d (Insert (FirstName account) (LastName account) (Some (Number account))
                      (Some (Balance account)) (CreateAt account)) of
        (d', Inl err) \<Rightarrow> (d', Some err)
      | (d', Inr _) \<Rightarrow> (d', None))"

definition UpdateAccount :: "db \<Rightarrow> Account \<Rightarrow> db \<times> (error + Account)" where
  "UpdateAccount d account =
     (case Query d (UpdateNames (ID account) (FirstName account) (LastName account)) of
        (d', Inl err) \<Rightarrow> (d', Inl err)
      | (d', Inr _) \<Rightarrow>
          (case Query d' (SelectByID (ID account)) of
             (d'', Inl err) \<Rightarrow> (d'', Inl err)
           | (d'', Inr rs) \<Rightarrow> (d'', first_row rs (ID account))))"

definition DeleteAccount :: "db \<Rightarrow> int \<Rightarrow> db \<times> error option" where
  "DeleteAccount d i =
     (case Query d (DeleteByID i) of (d', Inl err) \<Rightarrow> (d', Some err) | (d', Inr _) \<Rightarrow> (d', None))"

definition TransferToAccount :: "db \<Rightarrow> TransferRequest \<Rightarrow> db \<times> (error + Account)" where
  "TransferToAccount d detail =
     (case Query d (UpdateBalance (Amount detail) (ToAccount detail)) of
        (d', Inl err) \<Rightarrow> (d', Inl err)
      | (d', Inr _) \<Rightarrow>
          (case Query d' (SelectByID (ToAccount detail)) of
             (d'', Inl err) \<Rightarrow> (d'', Inl err)
           | (d'', Inr rs) \<Rightarrow> (d'', first_row rs (ToAccount detail))))"

subsection \<open>Requests, responses and the libraries the gateway calls\<close>

text \<open>
  A request as the handlers read it: the method, the route variable
  \<^verbatim>\<open>mux.Vars(r)["id"]\<close>, the header \<^verbatim>\<open>r.Header.Get("x-jwt-token")\<close> (empty when the header
  is absent) and the body.
\<close>

record Request =
  Method :: string
  Vars_id :: string
  x_jwt_token :: string
  Body :: string

text \<open>The values the handlers pass to \<^verbatim>\<open>WriteJSON\<close> as \<^verbatim>\<open>v any\<close>.\<close>

datatype payload =
    ApiError string
  | AccountJSON Account
  | AccountsJSON "Account list"
  | CreateAccountRequestJSON CreateAccountRequest
  | DeletedJSON int

text \<open>
  A response writer: the status code of the first \<^verbatim>\<open>WriteHeader\<close> (\<open>None\<close> before it), the
  header fields set before it, and the values encoded to the body so far. A handler
  that returns with \<open>status = None\<close> has written nothing.
\<close>

record ResponseWriter =
  status :: "nat option"
  header :: "(string \<times> string) list"
  body :: "payload list"

definition StatusOK :: nat where "StatusOK = 200"
definition StatusBadRequest :: nat where "StatusBadRequest = 400"
definition StatusForbidden :: nat where "StatusForbidden = 403"

text \<open>
  \<^verbatim>\<open>WriteJSON\<close>: the header field and the status take effect on the first call only (a
  later \<^verbatim>\<open>WriteHeader\<close> is ignored by net/http), the value is appended to the body. The
  encoder's error (a failed write to the connection) is not modelled: the result is nil.
\<close>

definition WriteJSON :: "ResponseWriter \<Rightarrow> nat \<Rightarrow> payload \<Rightarrow> ResponseWriter \<times> error option" where
  "WriteJSON w st v =
     ((case status w of
         None \<Rightarrow> w\<lparr>status := Some st,
                   header := header w @ [(''Content-Type'', ''application/json'')],
                   body := body w @ [v]\<rparr>
       | Some _ \<Rightarrow> w\<lparr>body := body w @ [v]\<rparr>),
      None)"

text \<open>
  A value of type \<^verbatim>\<open>interface{}\<close> in a claim set: what the program puts in (\<open>GoInt\<close>) and
  what the JSON decoder of the JWT library produces (numbers as \<open>float64\<close>).
\<close>

datatype go_value =
    GoNil
  | GoInt int
  | GoFloat64 real
  | GoString string
  | GoBool bool
  | GoSlice "go_value list"

fun type_name :: "go_value \<Rightarrow> string" where
  "type_name GoNil = ''nil''"
| "type_name (GoInt _) = ''int''"
| "type_name (GoFloat64 _) = ''float64''"
| "type_name (GoString _) = ''string''"
| "type_name (GoBool _) = ''bool''"
| "type_name (GoSlice _) = ''[]interface {}''"

datatype SigningMethod =
    SigningMethodHMAC string
  | SigningMethodRSA string
  | SigningMethodECDSA string
  | SigningMethodNone

fun Alg :: "SigningMethod \<Rightarrow> string" where
  "Alg (SigningMethodHMAC a) = a"
| "Alg (SigningMethodRSA a) = a"
| "Alg (SigningMethodECDSA a) = a"
| "Alg SigningMethodNone = ''none''"

definition SigningMethodHS256 :: SigningMethod where
  "SigningMethodHS256 = SigningMethodHMAC ''HS256''"

record Token =
  Valid :: bool
  Claims :: "string \<Rightarrow> go_value option"

text \<open>
  What the program calls and does not define. The JWT library
  (\<^verbatim>\<open>jwt.Parse(tokenString, keyFunc)\<close>, \<^verbatim>\<open>jwt.NewWithClaims(method, claims).SignedString(key)\<close>)
  and the JSON decoder are libraries; \<^verbatim>\<open>NewAccount\<close> is declared in the missing file;
  \<open>int64_out_of_range\<close> is the result of converting to \<^verbatim>\<open>int64\<close> a \<^verbatim>\<open>float64\<close> whose integer
  part does not fit, which Go leaves to the platform. The theorems hold for every
  value of this record.
\<close>

record externals =
  jwt_Parse :: "string \<Rightarrow> (SigningMethod \<Rightarrow> error + string) \<Rightarrow> error + Token"
  jwt_SignedString :: "SigningMethod \<Rightarrow> (string \<times> go_value) list \<Rightarrow> string \<Rightarrow> error + string"
  Decode_CreateAccountRequest :: "string \<Rightarrow> error + CreateAccountRequest"
  Decode_TransferRequest :: "string \<Rightarrow> error + TransferRequest"
  NewAccount :: "string \<Rightarrow> string \<Rightarrow> Account"
  int64_out_of_range :: "real \<Rightarrow> int"

text \<open>
  The conversion \<^verbatim>\<open>int64(f)\<close> of a \<^verbatim>\<open>float64\<close>: the fraction is dropped (truncation towards
  zero).
\<close>

definition trunc :: "real \<Rightarrow> int" where
  "trunc f = (if 0 \<le> f then \<lfloor>f\<rfloor> else \<lceil>f\<rceil>)"

definition int64 :: "externals \<Rightarrow> real \<Rightarrow> int" where
  "int64 x f =
     (if - (2 ^ 63) \<le> trunc f \<and> trunc f < 2 ^ 63 then trunc f else int64_out_of_range x f)"

subsection \<open>api.go: tokens\<close>

definition JWT_SECRET :: string where
  "JWT_SECRET = ''secret''"

definition keyFunc :: "SigningMethod \<Rightarrow> error + string" where
  "keyFunc m =
     (case m of
        SigningMethodHMAC _ \<Rightarrow> Inr JWT_SECRET
      | _ \<Rightarrow> Inl (Errorf (''Unexpected signing method: '' @ Alg m)))"

definition validateJWT :: "externals \<Rightarrow> string \<Rightarrow> error + Token" where
  "validateJWT x tokenString = jwt_Parse x tokenString keyFunc"

definition createJWT :: "externals \<Rightarrow> Account \<Rightarrow> error + string" where
  "createJWT x account =
     (let claims = [(''ExpiresAt'', GoInt 15000), (''AccountNumber'', GoInt (Number account))]
      in jwt_SignedString x SigningMethodHS256 claims JWT_SECRET)"

text \<open>
  What the JWT library promises of a token it has signed itself, whatever the key
  function: the claim set it parses has the names of the claim set that was signed,
  and an integer claim comes back as the \<^verbatim>\<open>float64\<close> of the same value (exact up to
  \<open>2 ^ 53\<close>). This is a property of the library, not of the program; the theorem about
  minted tokens assumes it.
\<close>

definition jwt_round_trip :: "externals \<Rightarrow> bool" where
  "jwt_round_trip x =
     (\<forall>m cs k s kf token.
        jwt_SignedString x m cs k = Inr s \<and> jwt_Parse x s kf = Inr token \<longrightarrow>
        dom (Claims token) = fst ` set cs \<and>
        (\<forall>name n. map_of cs name = Some (GoInt n) \<and> \<bar>n\<bar> \<le> 2 ^ 53 \<longrightarrow>
           Claims token name = Some (GoFloat64 (real_of_int n))))"

subsection \<open>api.go: handlers\<close>

text \<open>
  An \<^verbatim>\<open>apiFunc\<close> returns an error; a \<^verbatim>\<open>http.HandlerFunc\<close> returns nothing, and may panic.
  Both change the response writer and the backend.
\<close>

datatype 'a outcome = Return 'a | Panic string

type_synonym apiFunc = "ResponseWriter \<Rightarrow> Request \<Rightarrow> db \<Rightarrow> (ResponseWriter \<times> db) \<times> error option"
type_synonym HandlerFunc = "ResponseWriter \<Rightarrow> Request \<Rightarrow> db \<Rightarrow> (ResponseWriter \<times> db) outcome"

definition getId :: "Request \<Rightarrow> int \<times> error option" where
  "getId r =
     (let idStr = Vars_id r in
      case Atoi idStr of
        (i, Some _) \<Rightarrow> (i, Some (Errorf (''Invalid id given '' @ idStr)))
      | (i, None) \<Rightarrow> (i, None))"

text \<open>
  \<^verbatim>\<open>return WriteJSON(w, status, v)\<close> at the end of a handler: the writer after the call,
  the backend as the handler leaves it, and the error of \<^verbatim>\<open>WriteJSON\<close>.
\<close>

definition respond :: "ResponseWriter \<Rightarrow> db \<Rightarrow> nat \<Rightarrow> payload \<Rightarrow> (ResponseWriter \<times> db) \<times> error option" where
  "respond w d st v = (case WriteJSON w st v of (w', err) \<Rightarrow> ((w', d), err))"

definition handleGetAccount :: apiFunc where
  "handleGetAccount w r d =
     (case GetAccounts d of
        (d', Inl err) \<Rightarrow> ((w, d'), Some err)
      | (d', Inr accounts) \<Rightarrow> respond w d' StatusOK (AccountsJSON accounts))"

definition handleGetAccountByID :: apiFunc where
  "handleGetAccountByID w r d =
     (case getId r of
        (i, Some err) \<Rightarrow> ((w, d), Some err)
      | (i, None) \<Rightarrow>
          (case GetAccountByID d i of
             (d', Inl err) \<Rightarrow> ((w, d'), Some err)
           | (d', Inr account) \<Rightarrow> respond w d' StatusOK (AccountJSON account)))"

text \<open>The token is printed to the console (\<^verbatim>\<open>fmt.Printf\<close>), which the model leaves out.\<close>

definition handleCreateAccount :: "externals \<Rightarrow> apiFunc" where
  "handleCreateAccount x w r d =
     (case Decode_CreateAccountRequest x (Body r) of
        Inl err \<Rightarrow> ((w, d), Some err)
      | Inr createAccount \<Rightarrow>
          (let account = NewAccount x (req_FirstName createAccount) (req_LastName createAccount) in
           case CreateAccount d account of
             (d', Some err) \<Rightarrow> ((w, d'), Some err)
           | (d', None) \<Rightarrow>
               (case createJWT x account of
                  Inl err \<Rightarrow> ((w, d'), Some err)
                | Inr tokenString \<Rightarrow>
                    respond w d' StatusOK (CreateAccountRequestJSON createAccount))))"

text \<open>
  After \<^verbatim>\<open>s.store.UpdateAccount(account)\<close> the source reads
  \<^verbatim>\<open>if err != nil { return nil }\<close>: the error is dropped.
\<close>

definition handleUpdateAccount :: "externals \<Rightarrow> apiFunc" where
  "handleUpdateAccount x w r d =
     (case getId r of
        (i, Some err) \<Rightarrow> ((w, d), Some err)
      | (i, None) \<Rightarrow>
          (case Decode_CreateAccountRequest x (Body r) of
             Inl err \<Rightarrow> ((w, d), Some err)
           | Inr reqAccount \<Rightarrow>
               (let account = \<lparr>ID = i, FirstName = req_FirstName reqAccount,
                               LastName = req_LastName reqAccount, Number = 0, Balance = 0,
                               CreateAt = 0\<rparr> in
                case UpdateAccount d account of
                  (d', Inl err) \<Rightarrow> ((w, d'), None)
                | (d', Inr updatedAccount) \<Rightarrow>
                    respond w d' StatusOK (AccountJSON updatedAccount))))"

definition handleDeleteAccount :: apiFunc where
  "handleDeleteAccount w r d =
     (case getId r of
        (i, Some err) \<Rightarrow> ((w, d), Some err)
      | (i, None) \<Rightarrow>
          (case DeleteAccount d i of
             (d', Some err) \<Rightarrow> ((w, d'), Some err)
           | (d', None) \<Rightarrow> respond w d' StatusOK (DeletedJSON i)))"

definition handleTransferToAccount :: "externals \<Rightarrow> apiFunc" where
  "handleTransferToAccount x w r d =
     (case Decode_TransferRequest x (Body r) of
        Inl err \<Rightarrow> ((w, d), Some err)
      | Inr transfer \<Rightarrow>
          (case TransferToAccount d transfer of
             (d', Inl err) \<Rightarrow> ((w, d'), Some err)
           | (d', Inr account) \<Rightarrow> respond w d' StatusOK (AccountJSON account)))"

definition handleAccount :: "externals \<Rightarrow> apiFunc" where
  "handleAccount x w r d =
     (if Method r = ''GET'' then handleGetAccount w r d
      else if Method r = ''POST'' then handleCreateAccount x w r d
      else ((w, d), Some (Errorf (''Method not allowed '' @ Method r))))"

definition handleAccountWithId :: "externals \<Rightarrow> apiFunc" where
  "handleAccountWithId x w r d =
     (if Method r = ''GET'' then handleGetAccountByID w r d
      else if Method r = ''PUT'' then handleUpdateAccount x w r d
      else if Method r = ''DELETE'' then handleDeleteAccount w r d
      else ((w, d), Some (Errorf (''Method not allowed '' @ Method r))))"

definition handleTransfer :: "externals \<Rightarrow> apiFunc" where
  "handleTransfer x w r d =
     (if Method r = ''PUT'' then handleTransferToAccount x w r d
      else ((w, d), Some (Errorf (''Method not allowed '' @ Method r))))"

definition makeHandleFunc :: "apiFunc \<Rightarrow> HandlerFunc" where
  "makeHandleFunc f w r d =
     (case f w r d of
        ((w', d'), Some err) \<Rightarrow> Return (fst (WriteJSON w' StatusBadRequest (ApiError (Error err))), d')
      | ((w', d'), None) \<Rightarrow> Return (w', d'))"

subsection \<open>api.go: the authorization gate\<close>

definition permissionDenied :: "ResponseWriter \<Rightarrow> ResponseWriter" where
  "permissionDenied w = fst (WriteJSON w StatusForbidden (ApiError ''Invalid token''))"

text \<open>
  \<^verbatim>\<open>withJWTAuth(handleFunc, s)\<close>. The statement \<^verbatim>\<open>userID, _ := getId(r)\<close> discards the error
  of \<^verbatim>\<open>getId\<close>, and the test \<^verbatim>\<open>if err != nil\<close> after it reads the \<open>err\<close> of
  \<^verbatim>\<open>validateJWT\<close>, which is nil at that point. The type assertion
  \<^verbatim>\<open>claims["accountNumber"].(float64)\<close> has no \<open>ok\<close> result: it panics on an absent key and
  on a value of another type.
\<close>

definition withJWTAuth :: "externals \<Rightarrow> HandlerFunc \<Rightarrow> HandlerFunc" where
  "withJWTAuth x handleFunc w r d =
     (let tokenString = x_jwt_token r in
      case validateJWT x tokenString of
        Inl _ \<Rightarrow> Return (permissionDenied w, d)
      | Inr token \<Rightarrow>
          if \<not> Valid token then Return (permissionDenied w, d)
          else
            (let err = (None :: error option);
                 userID = fst (getId r)
             in if err \<noteq> None then Return (permissionDenied w, d)
                else
                  (case GetAccountByID d userID of
                     (d', Inl _) \<Rightarrow> Return (permissionDenied w, d')
                   | (d', Inr account) \<Rightarrow>
                       (case Claims token ''accountNumber'' of
                          Some (GoFloat64 f) \<Rightarrow>
                            if Number account \<noteq> int64 x f then Return (permissionDenied w, d')
                            else handleFunc w r d'
                        | Some v \<Rightarrow>
                            Panic (''interface conversion: interface {} is '' @ type_name v @
                                   '', not float64'')
                        | None \<Rightarrow>
                            Panic ''interface conversion: interface {} is nil, not float64''))))"

subsection \<open>api.go: routing\<close>

text \<open>
  The three routes of \<^verbatim>\<open>Run\<close>. The router (gorilla/mux) chooses the route from the path
  and binds \<open>{id}\<close>. \<^verbatim>\<open>Run\<close> calls \<^verbatim>\<open>withJWTAuth\<close> with the wrapped handler only; the store
  its second parameter asks for is the server's own.
\<close>

datatype route = account_route | account_id_route | transfer_route

fun Run :: "externals \<Rightarrow> route \<Rightarrow> HandlerFunc" where
  "Run x account_route = makeHandleFunc (handleAccount x)"
| "Run x account_id_route = withJWTAuth x (makeHandleFunc (handleAccountWithId x))"
| "Run x transfer_route = makeHandleFunc (handleTransfer x)"

definition new_writer :: ResponseWriter where
  "new_writer = \<lparr>status = None, header = [], body = []\<rparr>"

subsection \<open>States and fixtures\<close>

text \<open>What a new response writer holds after one \<^verbatim>\<open>WriteJSON(w, st, v)\<close>.\<close>

definition json_response :: "nat \<Rightarrow> payload \<Rightarrow> ResponseWriter" where
  "json_response st v =
     \<lparr>status = Some st, header = [(''Content-Type'', ''application/json'')], body = [v]\<rparr>"

text \<open>
  The backend right after \<^verbatim>\<open>createTableAccount\<close> has created the table: no row, no
  sequence value handed out.
\<close>

definition new_db :: "(stmt \<Rightarrow> string option) \<Rightarrow> db" where
  "new_db f = \<lparr>rows = [], id_seq = 0, number_seq = 0, balance_seq = 0, fault = f\<rparr>"

text \<open>
  The states the server can be in: the new table, the state any request leaves behind,
  the state after a restart (\<^verbatim>\<open>Init\<close> runs again on the table that exists), and any
  change of which statements the backend refuses.
\<close>

inductive reachable :: "externals \<Rightarrow> db \<Rightarrow> bool" for x :: externals where
  created: "reachable x (new_db f)"
| served: "reachable x d \<Longrightarrow> Run x p w r d = Return (w', d') \<Longrightarrow> reachable x d'"
| restarted: "reachable x d \<Longrightarrow> Init d = (d', e) \<Longrightarrow> reachable x d'"
| faults: "reachable x d \<Longrightarrow> reachable x (d\<lparr>fault := f\<rparr>)"

text \<open>
  Every id in the table came from the sequence of the \<open>serial\<close> column: it lies between
  1 and the sequence's last value, which is at most \<open>2147483647\<close>.
\<close>

definition serial_ids :: "db \<Rightarrow> bool" where
  "serial_ids d =
     (0 \<le> id_seq d \<and> id_seq d \<le> 2147483647 \<and>
      list_all (\<lambda>a. 1 \<le> ID a \<and> ID a \<le> id_seq d) (rows d))"

text \<open>
  Concrete libraries for the evaluations below: a JWT parser that knows the tokens of a
  table (signing method, key and claims of each) and calls the key function as the
  library does, a signer that knows the token of two claim sets (account numbers 42 and
  7) and signs nothing else, decoders that know one body each,
  and a \<^verbatim>\<open>NewAccount\<close> that numbers every account 42.
\<close>

definition table_Parse ::
  "(string \<times> SigningMethod \<times> string \<times> (string \<times> go_value) list) list \<Rightarrow>
   string \<Rightarrow> (SigningMethod \<Rightarrow> error + string) \<Rightarrow> error + Token" where
  "table_Parse known s kf =
     (case map_of known s of
        None \<Rightarrow> Inl (JWTError ''token is malformed'')
      | Some (m, key, cs) \<Rightarrow>
          (case kf m of
             Inl err \<Rightarrow> Inl err
           | Inr k \<Rightarrow>
               if k = key then Inr \<lparr>Valid = True, Claims = map_of cs\<rparr>
               else Inl (JWTError ''signature is invalid'')))"

definition known_tokens :: "(string \<times> SigningMethod \<times> string \<times> (string \<times> go_value) list) list" where
  "known_tokens =
     [(''number-42'', SigningMethodHS256, ''secret'', [(''accountNumber'', GoFloat64 42)]),
      (''number-7'', SigningMethodHS256, ''secret'', [(''accountNumber'', GoFloat64 7)]),
      (''number-42.5'', SigningMethodHS256, ''secret'', [(''accountNumber'', GoFloat64 (85 / 2))]),
      (''minted-42'', SigningMethodHS256, ''secret'',
         [(''ExpiresAt'', GoFloat64 15000), (''AccountNumber'', GoFloat64 42)]),
      (''minted-7'', SigningMethodHS256, ''secret'',
         [(''ExpiresAt'', GoFloat64 15000), (''AccountNumber'', GoFloat64 7)])]"

definition fx :: externals where
  "fx = \<lparr>jwt_Parse = table_Parse known_tokens,
         jwt_SignedString =
           (\<lambda>m cs k.
              if cs = [(''ExpiresAt'', GoInt 15000), (''AccountNumber'', GoInt 42)]
              then Inr ''minted-42''
              else if cs = [(''ExpiresAt'', GoInt 15000), (''AccountNumber'', GoInt 7)]
              then Inr ''minted-7''
              else Inl (JWTError ''no token for these claims'')),
         Decode_CreateAccountRequest =
           (\<lambda>b. if b = ''ada'' then Inr \<lparr>req_FirstName = ''Ada'', req_LastName = ''Lovelace''\<rparr>
                else Inl (DecodeError ''EOF'')),
         Decode_TransferRequest =
           (\<lambda>b. if b = ''to-1'' then Inr \<lparr>ToAccount = 1, Amount = 250\<rparr>
                else Inl (DecodeError ''EOF'')),
         NewAccount =
           (\<lambda>f l. \<lparr>ID = 0, FirstName = f, LastName = l, Number = 42, Balance = 0, CreateAt = 1\<rparr>),
         int64_out_of_range = (\<lambda>f. - (2 ^ 63))\<rparr>"

definition no_fault :: "stmt \<Rightarrow> string option" where
  "no_fault q = None"

text \<open>A backend that refuses every update of the names and executes everything else.\<close>

fun refuse_UpdateNames :: "stmt \<Rightarrow> string option" where
  "refuse_UpdateNames (UpdateNames i f l) = Some ''value too long for type character varying(50)''"
| "refuse_UpdateNames q = None"

definition ada :: Account where
  "ada = \<lparr>ID = 1, FirstName = ''Ada'', LastName = ''Lovelace'', Number = 42, Balance = 0,
          CreateAt = 1\<rparr>"

text \<open>The backend after \<^verbatim>\<open>POST /account\<close> has created the first account.\<close>

definition db1 :: db where
  "db1 = \<lparr>rows = [ada], id_seq = 1, number_seq = 0, balance_seq = 0, fault = no_fault\<rparr>"

section \<open>Properties of the store\<close>

lemma Query_SelectByID:
  "Query d (SelectByID i) =
     (case fault d (SelectByID i) of
        Some m \<Rightarrow> (d, Inl (DriverError m))
      | None \<Rightarrow> (d, Inr (filter (\<lambda>a. ID a = i) (rows d))))"
  by (simp add: Query_def split: option.splits)

lemma GetAccountByID_state: "fst (GetAccountByID d i) = d"
  by (simp add: GetAccountByID_def Query_SelectByID split: option.splits)

lemma filter_other_ids: "i \<notin> ID ` set rs \<Longrightarrow> filter (\<lambda>a. ID a \<noteq> i) rs = rs"
  by (induction rs) auto

lemma filter_no_id: "i \<notin> ID ` set rs \<Longrightarrow> filter (\<lambda>a. ID a = i) rs = []"
  by (induction rs) auto

text \<open>
  C8. \<^verbatim>\<open>GetAccountByID\<close>, when the backend executes the query: an id that matches no row
  gives the error "account <id> not found" and an id that exactly one row has gives
  that row. The backend is left as it was.
\<close>

theorem GetAccountByID_not_found_or_row:
  assumes "fault d (SelectByID i) = None"
  shows "(i \<notin> ID ` set (rows d) \<longrightarrow>
            GetAccountByID d i = (d, Inl (Errorf (''account '' @ fmt_d i @ '' not found'')))) \<and>
         (filter (\<lambda>a. ID a = i) (rows d) = [a] \<longrightarrow> GetAccountByID d i = (d, Inr a))"
  using assms
  by (simp add: GetAccountByID_def Query_SelectByID first_row_def scanIntoAccount_def
      filter_no_id)

theorem GetAccountByID_not_found_or_row_witness:
  "fault db1 (SelectByID 2) = None \<and> 2 \<notin> ID ` set (rows db1) \<and>
   GetAccountByID db1 2 = (db1, Inl (Errorf ''account 2 not found'')) \<and>
   fault db1 (SelectByID 1) = None \<and> filter (\<lambda>a. ID a = 1) (rows db1) = [ada] \<and>
   GetAccountByID db1 1 = (db1, Inr ada)"
  using GetAccountByID_not_found_or_row [of db1 2 ada]
    GetAccountByID_not_found_or_row [of db1 1 ada]
  by (simp add: db1_def ada_def no_fault_def fmt_d_def digits.simps)

text \<open>
  C7. \<^verbatim>\<open>DeleteAccount\<close>, when the backend executes the statement: it checks nothing
  about the id. On an id no row has it returns no error and leaves the backend as it
  was; called a second time with the same id it returns no error again and leaves the
  state the first call produced.
\<close>

theorem DeleteAccount_idempotent:
  assumes "fault d (DeleteByID i) = None"
  shows "(i \<notin> ID ` set (rows d) \<longrightarrow> DeleteAccount d i = (d, None)) \<and>
         snd (DeleteAccount d i) = None \<and>
         DeleteAccount (fst (DeleteAccount d i)) i = (fst (DeleteAccount d i), None)"
  using assms by (simp add: DeleteAccount_def Query_def filter_other_ids)

theorem DeleteAccount_idempotent_witness:
  "fault db1 (DeleteByID 2) = None \<and> 2 \<notin> ID ` set (rows db1) \<and>
   DeleteAccount db1 2 = (db1, None) \<and>
   fault db1 (DeleteByID 1) = None \<and>
   DeleteAccount db1 1 = (db1\<lparr>rows := []\<rparr>, None) \<and>
   DeleteAccount (db1\<lparr>rows := []\<rparr>) 1 = (db1\<lparr>rows := []\<rparr>, None)"
  using DeleteAccount_idempotent [of db1 2] DeleteAccount_idempotent [of db1 1]
  by (simp add: db1_def ada_def no_fault_def DeleteAccount_def Query_def)

text \<open>
  C4. \<^verbatim>\<open>TransferToAccount\<close> with \<open>toAccount = X\<close> and \<open>amount = A\<close>, when the backend
  executes its two statements and a row has id \<open>X\<close>: it returns the stored account of
  id \<open>X\<close> with the balance set to exactly \<open>A\<close>, whatever the balance was (an overwrite,
  not an addition). In the new state the balance of the rows with id \<open>X\<close> is the only
  thing that changed: every other row is as it was (no debit). \<^verbatim>\<open>GetAccountByID\<close> of \<open>X\<close>
  afterwards returns the same account, with balance \<open>A\<close>.
\<close>

theorem TransferToAccount_overwrites_balance:
  fixes d :: db and X A :: int
  defines "d' \<equiv> d\<lparr>rows := map (\<lambda>a. if ID a = X then a\<lparr>Balance := A\<rparr> else a) (rows d)\<rparr>"
    and "account \<equiv> (hd (filter (\<lambda>a. ID a = X) (rows d)))\<lparr>Balance := A\<rparr>"
  assumes "fault d (UpdateBalance A X) = None"
    and "fault d (SelectByID X) = None"
    and "X \<in> ID ` set (rows d)"
  shows "TransferToAccount d \<lparr>ToAccount = X, Amount = A\<rparr> = (d', Inr account) \<and>
         ID account = X \<and> Balance account = A \<and>
         filter (\<lambda>a. ID a \<noteq> X) (rows d') = filter (\<lambda>a. ID a \<noteq> X) (rows d) \<and>
         GetAccountByID d' X = (d', Inr account)"
proof -
  let ?upd = "\<lambda>a. if ID a = X then a\<lparr>Balance := A\<rparr> else a"
  have sel: "filter (\<lambda>a. ID a = X) (map ?upd rs) = map (\<lambda>a. a\<lparr>Balance := A\<rparr>) (filter (\<lambda>a. ID a = X) rs)"
    for rs
    by (induction rs) auto
  have others: "filter (\<lambda>a. ID a \<noteq> X) (map ?upd rs) = filter (\<lambda>a. ID a \<noteq> X) rs" for rs
    by (induction rs) auto
  from assms(5) obtain r rs where found: "filter (\<lambda>a. ID a = X) (rows d) = r # rs"
    by (cases "filter (\<lambda>a. ID a = X) (rows d)") (auto simp: filter_empty_conv)
  then have "r \<in> set (filter (\<lambda>a. ID a = X) (rows d))"
    by simp
  then have idr: "ID r = X"
    by simp
  have acc: "account = r\<lparr>Balance := A\<rparr>"
    using found by (simp add: account_def)
  have upd: "Query d (UpdateBalance A X) = (d', Inr [])"
    using assms(3) by (simp add: Query_def d'_def)
  have sel': "filter (\<lambda>a. ID a = X) (rows d') = r\<lparr>Balance := A\<rparr> # map (\<lambda>a. a\<lparr>Balance := A\<rparr>) rs"
    using found by (simp add: d'_def sel)
  have flt: "fault d' (SelectByID X) = None"
    using assms(4) by (simp add: d'_def)
  have get: "GetAccountByID d' X = (d', Inr account)"
    using flt sel' acc
    by (simp add: GetAccountByID_def Query_SelectByID first_row_def scanIntoAccount_def)
  have "TransferToAccount d \<lparr>ToAccount = X, Amount = A\<rparr> = (d', Inr account)"
    using flt sel' acc upd
    by (simp add: TransferToAccount_def Query_SelectByID first_row_def scanIntoAccount_def)
  moreover have "filter (\<lambda>a. ID a \<noteq> X) (rows d') = filter (\<lambda>a. ID a \<noteq> X) (rows d)"
    by (simp add: d'_def others)
  ultimately show ?thesis
    using get idr acc by simp
qed

theorem TransferToAccount_overwrites_balance_witness:
  "fault db1 (UpdateBalance 250 1) = None \<and> fault db1 (SelectByID 1) = None \<and>
   1 \<in> ID ` set (rows db1) \<and>
   TransferToAccount db1 \<lparr>ToAccount = 1, Amount = 250\<rparr> =
     (db1\<lparr>rows := [ada\<lparr>Balance := 250\<rparr>]\<rparr>, Inr (ada\<lparr>Balance := 250\<rparr>)) \<and>
   GetAccountByID (db1\<lparr>rows := [ada\<lparr>Balance := 250\<rparr>]\<rparr>) 1 =
     (db1\<lparr>rows := [ada\<lparr>Balance := 250\<rparr>]\<rparr>, Inr (ada\<lparr>Balance := 250\<rparr>))"
  using TransferToAccount_overwrites_balance [of db1 250 1]
  by (simp add: db1_def ada_def no_fault_def)

text \<open>
  C6, as stated (the stored \<open>number\<close> and \<open>balance\<close> come from the backend's sequences and
  not from the caller), fails: the insert of \<^verbatim>\<open>CreateAccount\<close> lists both columns with
  \<^verbatim>\<open>account.Number\<close> and \<^verbatim>\<open>account.Balance\<close>. On the new table an account with number 42
  and balance 7 is stored with number 42 and balance 7, where the sequences would have
  given 1 and 1, and neither sequence has moved.
\<close>

theorem CreateAccount_number_from_sequence_counterexample:
  "CreateAccount (new_db no_fault)
     \<lparr>ID = 0, FirstName = ''Ada'', LastName = ''Lovelace'', Number = 42, Balance = 7, CreateAt = 1\<rparr> =
   (\<lparr>rows = [\<lparr>ID = 1, FirstName = ''Ada'', LastName = ''Lovelace'', Number = 42, Balance = 7,
              CreateAt = 1\<rparr>],
     id_seq = 1, number_seq = 0, balance_seq = 0, fault = no_fault\<rparr>, None) \<and>
   serial None (number_seq (new_db no_fault)) = Some (1, 1) \<and>
   serial None (balance_seq (new_db no_fault)) = Some (1, 1)"
  by (simp add: CreateAccount_def Query_def new_db_def serial_def no_fault_def)

text \<open>
  C6, amended. \<^verbatim>\<open>CreateAccount\<close>, when the backend executes the insert (and the id
  sequence has a next value that no row has), returns no error and adds one row at the
  end of the table. The row's \<open>number\<close> and \<open>balance\<close> are those of the account the caller
  passed, and the sequences of the two columns are not touched; only \<open>id\<close> is assigned
  by the backend, as the next value of its sequence.
\<close>

theorem CreateAccount_stores_given_number_and_balance:
  fixes d :: db and account :: Account
  defines "d' \<equiv> fst (CreateAccount d account)"
  defines "row \<equiv> last (rows d')"
  assumes "fault d (Insert (FirstName account) (LastName account) (Some (Number account))
                      (Some (Balance account)) (CreateAt account)) = None"
    and "id_seq d < 2147483647"
    and "id_seq d + 1 \<notin> ID ` set (rows d)"
  shows "snd (CreateAccount d account) = None \<and> rows d' = rows d @ [row] \<and>
         Number row = Number account \<and> Balance row = Balance account \<and>
         number_seq d' = number_seq d \<and> balance_seq d' = balance_seq d \<and>
         ID row = id_seq d + 1 \<and> id_seq d' = id_seq d + 1"
  using assms by (simp add: CreateAccount_def Query_def serial_def)

theorem CreateAccount_stores_given_number_and_balance_witness:
  "fault db1 (Insert ''Grace'' ''Hopper'' (Some 9) (Some 500) 2) = None \<and>
   id_seq db1 < 2147483647 \<and> id_seq db1 + 1 \<notin> ID ` set (rows db1) \<and>
   CreateAccount db1
     \<lparr>ID = 0, FirstName = ''Grace'', LastName = ''Hopper'', Number = 9, Balance = 500, CreateAt = 2\<rparr> =
   (\<lparr>rows = [ada, \<lparr>ID = 2, FirstName = ''Grace'', LastName = ''Hopper'', Number = 9,
                    Balance = 500, CreateAt = 2\<rparr>],
     id_seq = 2, number_seq = 0, balance_seq = 0, fault = no_fault\<rparr>, None)"
proof -
  let ?a = "\<lparr>ID = 0, FirstName = ''Grace'', LastName = ''Hopper'', Number = 9, Balance = 500,
             CreateAt = 2\<rparr>"
  have f: "fault db1 (Insert (FirstName ?a) (LastName ?a) (Some (Number ?a)) (Some (Balance ?a))
      (CreateAt ?a)) = None"
    by (simp add: db1_def no_fault_def)
  have s: "id_seq db1 < 2147483647"
    by (simp add: db1_def)
  have n: "id_seq db1 + 1 \<notin> ID ` set (rows db1)"
    by (simp add: db1_def ada_def)
  have e: "CreateAccount db1 ?a =
      (\<lparr>rows = [ada, \<lparr>ID = 2, FirstName = ''Grace'', LastName = ''Hopper'', Number = 9,
                    Balance = 500, CreateAt = 2\<rparr>],
        id_seq = 2, number_seq = 0, balance_seq = 0, fault = no_fault\<rparr>, None)"
    by (simp add: CreateAccount_def Query_def serial_def db1_def ada_def no_fault_def)
  from CreateAccount_stores_given_number_and_balance [OF f s n] f s n e
  show ?thesis
    by simp
qed

section \<open>Properties of the gateway\<close>

subsection \<open>What \<^verbatim>\<open>Atoi\<close> returns with an error\<close>

text \<open>
  With a syntax error the value is 0; with a range error it is the bound of the signed
  64-bit range on the side of the sign.
\<close>

lemma ParseUint_error:
  "ParseUint n s = (v, Some e) \<Longrightarrow> (v = 0 \<and> e = ErrSyntax) \<or> (v = 2 ^ 64 - 1 \<and> e = ErrRange)"
  by (induction n s rule: ParseUint.induct) (auto split: if_splits)

lemma Atoi_error_value:
  assumes "snd (Atoi s) \<noteq> None"
  shows "fst (Atoi s) = 0 \<or> fst (Atoi s) = 2 ^ 63 - 1 \<or> fst (Atoi s) = - (2 ^ 63)"
proof -
  define ds where "ds = (if s \<noteq> [] \<and> (hd s = CHR ''+'' \<or> hd s = CHR ''-'') then tl s else s)"
  obtain un e where p: "ParseUint 0 ds = (un, e)"
    by (cases "ParseUint 0 ds")
  show ?thesis
  proof (cases e)
    case None
    with p assms show ?thesis
      unfolding Atoi_def Let_def ds_def [symmetric]
      by (auto split: if_splits)
  next
    case (Some err)
    with p have "(un = 0 \<and> err = ErrSyntax) \<or> (un = 2 ^ 64 - 1 \<and> err = ErrRange)"
      using ParseUint_error [of 0 ds un err] by simp
    with p Some assms show ?thesis
      unfolding Atoi_def Let_def ds_def [symmetric]
      by (auto split: if_splits)
  qed
qed

subsection \<open>The ids of the table come from the sequence\<close>

text \<open>
  \<open>serial_ids\<close> holds of the new table and no statement breaks it, so no method of the
  store, no handler and no request does: it holds in every reachable state.
\<close>

lemma serial_ids_Query: "serial_ids d \<Longrightarrow> serial_ids (fst (Query d q))"
  by (cases q)
    (auto simp: Query_def serial_ids_def serial_def list_all_iff split: option.splits if_splits)

lemma serial_ids_QueryD: "Query d q = (d', res) \<Longrightarrow> serial_ids d \<Longrightarrow> serial_ids d'"
  using serial_ids_Query [of d q] by simp

lemma serial_ids_GetAccounts: "GetAccounts d = (d', res) \<Longrightarrow> serial_ids d \<Longrightarrow> serial_ids d'"
  by (auto simp: GetAccounts_def split: prod.splits sum.splits dest: serial_ids_QueryD)

lemma serial_ids_GetAccountByID: "GetAccountByID d i = (d', res) \<Longrightarrow> serial_ids d \<Longrightarrow> serial_ids d'"
  by (auto simp: GetAccountByID_def split: prod.splits sum.splits dest: serial_ids_QueryD)

lemma serial_ids_CreateAccount: "CreateAccount d a = (d', res) \<Longrightarrow> serial_ids d \<Longrightarrow> serial_ids d'"
  by (auto simp: CreateAccount_def split: prod.splits sum.splits dest: serial_ids_QueryD)

lemma serial_ids_DeleteAccount: "DeleteAccount d i = (d', res) \<Longrightarrow> serial_ids d \<Longrightarrow> serial_ids d'"
  by (auto simp: DeleteAccount_def split: prod.splits sum.splits dest: serial_ids_QueryD)

lemma serial_ids_UpdateAccount: "UpdateAccount d a = (d', res) \<Longrightarrow> serial_ids d \<Longrightarrow> serial_ids d'"
  by (auto simp: UpdateAccount_def split: prod.splits sum.splits dest: serial_ids_QueryD)

lemma serial_ids_TransferToAccount:
  "TransferToAccount d t = (d', res) \<Longrightarrow> serial_ids d \<Longrightarrow> serial_ids d'"
  by (auto simp: TransferToAccount_def split: prod.splits sum.splits dest: serial_ids_QueryD)

lemma respond_eq: "respond w d st v = ((w', d'), e) \<Longrightarrow> d' = d"
  by (auto simp: respond_def WriteJSON_def split: option.splits)

lemma serial_ids_handleAccount:
  "handleAccount x w r d = ((w', d'), e) \<Longrightarrow> serial_ids d \<Longrightarrow> serial_ids d'"
  by (auto simp: handleAccount_def handleGetAccount_def handleCreateAccount_def Let_def
      split: prod.splits sum.splits option.splits if_splits
      dest: serial_ids_GetAccounts serial_ids_CreateAccount respond_eq)

lemma serial_ids_handleAccountWithId:
  "handleAccountWithId x w r d = ((w', d'), e) \<Longrightarrow> serial_ids d \<Longrightarrow> serial_ids d'"
  by (auto simp: handleAccountWithId_def handleGetAccountByID_def handleUpdateAccount_def
      handleDeleteAccount_def Let_def
      split: prod.splits sum.splits option.splits if_splits
      dest: serial_ids_GetAccountByID serial_ids_UpdateAccount serial_ids_DeleteAccount respond_eq)

lemma serial_ids_handleTransfer:
  "handleTransfer x w r d = ((w', d'), e) \<Longrightarrow> serial_ids d \<Longrightarrow> serial_ids d'"
  by (auto simp: handleTransfer_def handleTransferToAccount_def
      split: prod.splits sum.splits option.splits if_splits
      dest: serial_ids_TransferToAccount respond_eq)

lemma makeHandleFunc_state:
  "makeHandleFunc f w r d = Return (w', d') \<Longrightarrow> \<exists>w'' e. f w r d = ((w'', d'), e)"
  by (auto simp: makeHandleFunc_def split: prod.splits option.splits)

lemma withJWTAuth_state:
  "withJWTAuth x h w r d = Return (w', d') \<Longrightarrow> d' = d \<or> h w r d = Return (w', d')"
  using GetAccountByID_state [of d "fst (getId r)"]
  by (auto simp: withJWTAuth_def Let_def split: sum.splits if_splits prod.splits option.splits
      go_value.splits)

lemma serial_ids_Run:
  assumes "serial_ids d" and "Run x p w r d = Return (w', d')"
  shows "serial_ids d'"
proof (cases p)
  case account_route
  with assms show ?thesis
    by (auto dest!: makeHandleFunc_state dest: serial_ids_handleAccount)
next
  case account_id_route
  with assms have "d' = d \<or> makeHandleFunc (handleAccountWithId x) w r d = Return (w', d')"
    by (simp add: withJWTAuth_state)
  with assms(1) show ?thesis
    by (auto dest!: makeHandleFunc_state dest: serial_ids_handleAccountWithId)
next
  case transfer_route
  with assms show ?thesis
    by (auto dest!: makeHandleFunc_state dest: serial_ids_handleTransfer)
qed

lemma serial_ids_Init: "Init d = (d', e) \<Longrightarrow> serial_ids d \<Longrightarrow> serial_ids d'"
  by (auto simp: Init_def createTableAccount_def split: prod.splits sum.splits
      dest: serial_ids_QueryD)

lemma reachable_serial_ids: "reachable x d \<Longrightarrow> serial_ids d"
proof (induction rule: reachable.induct)
  case (created f)
  show ?case by (simp add: new_db_def serial_ids_def)
next
  case (served d p w r w' d')
  then show ?case by (blast intro: serial_ids_Run)
next
  case (restarted d d' e)
  then show ?case by (blast intro: serial_ids_Init)
next
  case (faults d f)
  then show ?case by (simp add: serial_ids_def)
qed

subsection \<open>Responses, the gate, and the fixtures evaluated\<close>

lemma json_response_new: "fst (WriteJSON new_writer st v) = json_response st v"
  by (simp add: WriteJSON_def new_writer_def json_response_def)

lemma permissionDenied_new: "permissionDenied new_writer = json_response 403 (ApiError ''Invalid token'')"
  by (simp add: permissionDenied_def json_response_new StatusForbidden_def)

lemma GetAccountByID_no_row:
  assumes "i \<notin> ID ` set (rows d)"
  shows "\<exists>e. GetAccountByID d i = (d, Inl e)"
  using assms
  by (simp add: GetAccountByID_def Query_SelectByID first_row_def filter_no_id split: option.splits)

lemma serial_ids_not_error_value:
  assumes "serial_ids d" and "i = 0 \<or> i = 2 ^ 63 - 1 \<or> i = - (2 ^ 63)"
  shows "i \<notin> ID ` set (rows d)"
  using assms by (auto simp: serial_ids_def list_all_iff)

lemma reachable_db1: "reachable fx db1"
proof -
  have "Run fx account_route new_writer
          \<lparr>Method = ''POST'', Vars_id = '''', x_jwt_token = '''', Body = ''ada''\<rparr> (new_db no_fault) =
        Return (json_response 200
                  (CreateAccountRequestJSON \<lparr>req_FirstName = ''Ada'', req_LastName = ''Lovelace''\<rparr>),
                db1)"
    by (simp add: makeHandleFunc_def handleAccount_def handleCreateAccount_def fx_def
        CreateAccount_def Query_def new_db_def no_fault_def serial_def createJWT_def respond_def
        WriteJSON_def new_writer_def json_response_def StatusOK_def db1_def ada_def)
  with reachable.created [of fx no_fault] show ?thesis
    by (rule reachable.served)
qed

lemma Atoi_abc: "Atoi ''abc'' = (0, Some ErrSyntax)"
  by (simp add: Atoi_def is_digit_def)

lemma Atoi_1: "Atoi ''1'' = (1, None)"
  by (simp add: Atoi_def is_digit_def)

lemma Atoi_big: "Atoi ''99999999999999999999x'' = (2 ^ 63 - 1, Some ErrRange)"
  by (simp add: Atoi_def is_digit_def)

lemma validate_42:
  "validateJWT fx ''number-42'' =
     Inr \<lparr>Valid = True, Claims = map_of [(''accountNumber'', GoFloat64 42)]\<rparr>"
  by (simp add: validateJWT_def fx_def table_Parse_def known_tokens_def keyFunc_def
      SigningMethodHS256_def JWT_SECRET_def)

lemma trunc_eval: "trunc (85 / 2) = 42" "trunc 7 = 7" "trunc 42 = 42"
  by (simp_all add: trunc_def)

lemma GetAccountByID_db1: "GetAccountByID db1 1 = (db1, Inr ada)"
  by (simp add: GetAccountByID_def Query_SelectByID first_row_def scanIntoAccount_def db1_def
      no_fault_def ada_def)

text \<open>The fixture library keeps the promise \<open>jwt_round_trip\<close>.\<close>

lemma sign_cases:
  "jwt_SignedString fx m cs k = Inr s \<Longrightarrow>
   (cs = [(''ExpiresAt'', GoInt 15000), (''AccountNumber'', GoInt 42)] \<and> s = ''minted-42'') \<or>
   (cs = [(''ExpiresAt'', GoInt 15000), (''AccountNumber'', GoInt 7)] \<and> s = ''minted-7'')"
  by (simp add: fx_def split: if_splits)

lemma parse_minted_42:
  "jwt_Parse fx ''minted-42'' kf = Inr token \<Longrightarrow>
   Claims token = map_of [(''ExpiresAt'', GoFloat64 15000), (''AccountNumber'', GoFloat64 42)]"
  by (auto simp: fx_def table_Parse_def known_tokens_def split: sum.splits if_splits)

lemma parse_minted_7:
  "jwt_Parse fx ''minted-7'' kf = Inr token \<Longrightarrow>
   Claims token = map_of [(''ExpiresAt'', GoFloat64 15000), (''AccountNumber'', GoFloat64 7)]"
  by (auto simp: fx_def table_Parse_def known_tokens_def split: sum.splits if_splits)

lemma jwt_round_trip_fx: "jwt_round_trip fx"
  unfolding jwt_round_trip_def
proof (intro allI impI, elim conjE)
  fix m cs k s kf token
  assume sg: "jwt_SignedString fx m cs k = Inr s" and ps: "jwt_Parse fx s kf = Inr token"
  from sign_cases [OF sg] show "dom (Claims token) = fst ` set cs \<and>
      (\<forall>name n. map_of cs name = Some (GoInt n) \<and> \<bar>n\<bar> \<le> 2 ^ 53 \<longrightarrow>
         Claims token name = Some (GoFloat64 (real_of_int n)))"
  proof
    assume c: "cs = [(''ExpiresAt'', GoInt 15000), (''AccountNumber'', GoInt 42)] \<and> s = ''minted-42''"
    with ps have "Claims token =
        map_of [(''ExpiresAt'', GoFloat64 15000), (''AccountNumber'', GoFloat64 42)]"
      using parse_minted_42 by blast
    with c show ?thesis
      by (auto split: if_splits)
  next
    assume c: "cs = [(''ExpiresAt'', GoInt 15000), (''AccountNumber'', GoInt 7)] \<and> s = ''minted-7''"
    with ps have "Claims token =
        map_of [(''ExpiresAt'', GoFloat64 15000), (''AccountNumber'', GoFloat64 7)]"
      using parse_minted_7 by blast
    with c show ?thesis
      by (auto split: if_splits)
  qed
qed

text \<open>The promise, as rules.\<close>

lemma jwt_round_tripD:
  assumes "jwt_round_trip x"
    and "jwt_SignedString x m cs k = Inr s"
    and "jwt_Parse x s kf = Inr token"
  shows "dom (Claims token) = fst ` set cs"
    and "map_of cs name = Some (GoInt n) \<Longrightarrow> \<bar>n\<bar> \<le> 2 ^ 53 \<Longrightarrow>
         Claims token name = Some (GoFloat64 (real_of_int n))"
proof -
  from assms(1) have "jwt_SignedString x m cs k = Inr s \<and> jwt_Parse x s kf = Inr token \<longrightarrow>
      dom (Claims token) = fst ` set cs \<and>
      (\<forall>name n. map_of cs name = Some (GoInt n) \<and> \<bar>n\<bar> \<le> 2 ^ 53 \<longrightarrow>
         Claims token name = Some (GoFloat64 (real_of_int n)))"
    unfolding jwt_round_trip_def by (elim allE)
  with assms(2,3) have both: "dom (Claims token) = fst ` set cs \<and>
      (\<forall>name n. map_of cs name = Some (GoInt n) \<and> \<bar>n\<bar> \<le> 2 ^ 53 \<longrightarrow>
         Claims token name = Some (GoFloat64 (real_of_int n)))"
    by simp
  then show "dom (Claims token) = fst ` set cs"
    by (rule conjunct1)
  from both have "map_of cs name = Some (GoInt n) \<and> \<bar>n\<bar> \<le> 2 ^ 53 \<longrightarrow>
      Claims token name = Some (GoFloat64 (real_of_int n))"
    by (elim conjE allE)
  then show "map_of cs name = Some (GoInt n) \<Longrightarrow> \<bar>n\<bar> \<le> 2 ^ 53 \<Longrightarrow>
      Claims token name = Some (GoFloat64 (real_of_int n))"
    by simp
qed

lemma withJWTAuth_pass:
  assumes "validateJWT x (x_jwt_token r) = Inr token" and "Valid token"
    and "GetAccountByID d (fst (getId r)) = (d', Inr account)"
    and "Claims token ''accountNumber'' = Some (GoFloat64 f)"
    and "int64 x f = Number account"
  shows "withJWTAuth x handleFunc w r d = handleFunc w r d"
proof -
  have "d' = d"
    using assms(3) GetAccountByID_state [of d "fst (getId r)"] by simp
  with assms show ?thesis
    by (simp add: withJWTAuth_def Let_def)
qed

lemma getId_error:
  "snd (Atoi (Vars_id r)) \<noteq> None \<Longrightarrow>
   \<exists>i. getId r = (i, Some (Errorf (''Invalid id given '' @ Vars_id r)))"
  by (cases "Atoi (Vars_id r)") (auto simp: getId_def Let_def)

section \<open>The claims about the gateway\<close>

text \<open>
  C5. On the gated route, a request whose \<open>{id}\<close> segment \<^verbatim>\<open>Atoi\<close> rejects is answered
  with 403 and the body \<open>{"Error": "Invalid token"}\<close>, whatever token it carries and
  whatever handler the gate wraps (the handler is not called), in every state the
  server can reach. The gate's own test of the id never fires (it reads the wrong
  \<open>err\<close>); the denial comes from the token check or from the lookup of the value \<^verbatim>\<open>Atoi\<close>
  returned with its error (0 or a bound of the 64-bit range), which no row has as id.
\<close>

theorem withJWTAuth_malformed_id_denied:
  assumes "reachable x d" and "snd (Atoi (Vars_id r)) \<noteq> None"
  shows "withJWTAuth x handleFunc new_writer r d =
           Return (json_response 403 (ApiError ''Invalid token''), d)"
proof -
  have inv: "serial_ids d"
    using assms(1) by (rule reachable_serial_ids)
  have "fst (getId r) = fst (Atoi (Vars_id r))"
    by (simp add: getId_def Let_def split: prod.splits option.splits)
  with assms(2) have "fst (getId r) = 0 \<or> fst (getId r) = 2 ^ 63 - 1 \<or> fst (getId r) = - (2 ^ 63)"
    using Atoi_error_value [of "Vars_id r"] by simp
  with inv have "fst (getId r) \<notin> ID ` set (rows d)"
    by (rule serial_ids_not_error_value)
  then obtain e where "GetAccountByID d (fst (getId r)) = (d, Inl e)"
    using GetAccountByID_no_row by blast
  then have "withJWTAuth x h w' r d = Return (permissionDenied w', d)" for h w'
    by (simp add: withJWTAuth_def Let_def split: sum.splits)
  then show ?thesis
    by (simp add: permissionDenied_new)
qed

text \<open>
  The request \<^verbatim>\<open>GET /account/abc\<close> with a validly signed token that carries the number
  of the stored account, after the first account has been created: 403.
\<close>

theorem withJWTAuth_malformed_id_denied_witness:
  "reachable fx db1 \<and> snd (Atoi ''abc'') \<noteq> None \<and>
   validateJWT fx ''number-42'' =
     Inr \<lparr>Valid = True, Claims = map_of [(''accountNumber'', GoFloat64 42)]\<rparr> \<and>
   Number ada = 42 \<and>
   Run fx account_id_route new_writer
     \<lparr>Method = ''GET'', Vars_id = ''abc'', x_jwt_token = ''number-42'', Body = ''''\<rparr> db1 =
   Return (json_response 403 (ApiError ''Invalid token''), db1)"
  using withJWTAuth_malformed_id_denied
    [of fx db1 "\<lparr>Method = ''GET'', Vars_id = ''abc'', x_jwt_token = ''number-42'', Body = ''''\<rparr>"
      "makeHandleFunc (handleAccountWithId fx)"]
    reachable_db1 Atoi_abc validate_42
  by (simp add: ada_def)

text \<open>
  C1, as stated (403 whenever the claim is not numerically equal to the account's
  number), fails: the gate compares the number with \<^verbatim>\<open>int64(claim)\<close>, which drops the
  fraction. A validly signed token with \<open>accountNumber = 42.5\<close> passes the gate for the
  account whose number is 42, and the handler answers 200 with the account.
\<close>

theorem withJWTAuth_fraction_counterexample:
  "validateJWT fx ''number-42.5'' =
     Inr \<lparr>Valid = True, Claims = map_of [(''accountNumber'', GoFloat64 (85 / 2))]\<rparr> \<and>
   GetAccountByID db1 1 = (db1, Inr ada) \<and> (85 / 2 :: real) \<noteq> real_of_int (Number ada) \<and>
   Run fx account_id_route new_writer
     \<lparr>Method = ''GET'', Vars_id = ''1'', x_jwt_token = ''number-42.5'', Body = ''''\<rparr> db1 =
   Return (json_response 200 (AccountJSON ada), db1)"
  by (simp add: withJWTAuth_def validateJWT_def fx_def table_Parse_def known_tokens_def keyFunc_def
      SigningMethodHS256_def JWT_SECRET_def getId_def Atoi_1 GetAccountByID_db1 int64_def
      trunc_eval makeHandleFunc_def handleAccountWithId_def handleGetAccountByID_def respond_def
      Let_def WriteJSON_def new_writer_def json_response_def StatusOK_def)
    (simp add: ada_def)

text \<open>
  C1, amended. A request to the gated route with a validly signed token, a path id that
  parses and has an account, and a claim \<open>accountNumber\<close> that is a number whose
  conversion to \<^verbatim>\<open>int64\<close> (the fraction dropped) differs from the account's number, is
  answered with 403 and the body \<open>{"Error": "Invalid token"}\<close>; the handler the gate wraps
  is not called, whatever it is, and the backend is as it was.
\<close>

theorem withJWTAuth_number_mismatch_denied:
  assumes "validateJWT x (x_jwt_token r) = Inr token" and "Valid token"
    and "getId r = (i, None)" and "GetAccountByID d i = (d', Inr account)"
    and "Claims token ''accountNumber'' = Some (GoFloat64 f)"
    and "int64 x f \<noteq> Number account"
  shows "withJWTAuth x handleFunc new_writer r d =
           Return (json_response 403 (ApiError ''Invalid token''), d)"
proof -
  have "d' = d"
    using assms(4) GetAccountByID_state [of d i] by simp
  with assms have "withJWTAuth x h w' r d = Return (permissionDenied w', d)" for h w'
    by (simp add: withJWTAuth_def Let_def)
  then show ?thesis
    by (simp add: permissionDenied_new)
qed

theorem withJWTAuth_number_mismatch_denied_witness:
  "validateJWT fx ''number-7'' =
     Inr \<lparr>Valid = True, Claims = map_of [(''accountNumber'', GoFloat64 7)]\<rparr> \<and>
   getId \<lparr>Method = ''GET'', Vars_id = ''1'', x_jwt_token = ''number-7'', Body = ''''\<rparr> = (1, None) \<and>
   GetAccountByID db1 1 = (db1, Inr ada) \<and> int64 fx 7 \<noteq> Number ada \<and>
   Run fx account_id_route new_writer
     \<lparr>Method = ''GET'', Vars_id = ''1'', x_jwt_token = ''number-7'', Body = ''''\<rparr> db1 =
   Return (json_response 403 (ApiError ''Invalid token''), db1)"
proof -
  let ?r = "\<lparr>Method = ''GET'', Vars_id = ''1'', x_jwt_token = ''number-7'', Body = ''''\<rparr>"
  let ?t = "\<lparr>Valid = True, Claims = map_of [(''accountNumber'', GoFloat64 7)]\<rparr>"
  have v: "validateJWT fx (x_jwt_token ?r) = Inr ?t"
    by (simp add: validateJWT_def fx_def table_Parse_def known_tokens_def keyFunc_def
        SigningMethodHS256_def JWT_SECRET_def)
  have g: "getId ?r = (1, None)"
    by (simp add: getId_def Atoi_1)
  have n: "int64 fx 7 \<noteq> Number ada"
    by (simp add: int64_def trunc_eval ada_def)
  have c: "Claims ?t ''accountNumber'' = Some (GoFloat64 7)"
    by simp
  from withJWTAuth_number_mismatch_denied
    [OF v _ g GetAccountByID_db1 c n, of "makeHandleFunc (handleAccountWithId fx)"] v g n
  show ?thesis
    by (simp add: GetAccountByID_db1)
qed

text \<open>
  C2. \<^verbatim>\<open>createJWT\<close> signs the account's number under the key \<open>AccountNumber\<close>; the gate
  reads the key \<open>accountNumber\<close>. With a library that hands back what it signed, the
  token \<^verbatim>\<open>createJWT\<close> returns for an account parses to the claim names \<open>ExpiresAt\<close> and
  \<open>AccountNumber\<close>, with the account's number under \<open>AccountNumber\<close> and nothing under
  \<open>accountNumber\<close>. So the gate never calls the handler for such a token, whatever the
  handler, the path and the backend: it answers 403 (validation or lookup failed) or
  panics in the type assertion on the absent claim, and it panics whenever validation
  and lookup succeed.
\<close>

theorem createJWT_token_never_reaches_handler:
  assumes "jwt_round_trip x"
    and "createJWT x account = Inr tokenString"
    and "x_jwt_token r = tokenString"
  shows "(\<forall>token. validateJWT x tokenString = Inr token \<longrightarrow>
            dom (Claims token) = {''ExpiresAt'', ''AccountNumber''} \<and>
            (\<bar>Number account\<bar> \<le> 2 ^ 53 \<longrightarrow>
               Claims token ''AccountNumber'' = Some (GoFloat64 (real_of_int (Number account)))) \<and>
            Claims token ''accountNumber'' = None) \<and>
         (withJWTAuth x handleFunc w r d = Return (permissionDenied w, d) \<or>
          withJWTAuth x handleFunc w r d =
            Panic ''interface conversion: interface {} is nil, not float64'') \<and>
         (\<forall>token stored.
            validateJWT x tokenString = Inr token \<and> Valid token \<and>
            GetAccountByID d (fst (getId r)) = (d, Inr stored) \<longrightarrow>
            withJWTAuth x handleFunc w r d =
              Panic ''interface conversion: interface {} is nil, not float64'')"
proof -
  let ?cs = "[(''ExpiresAt'', GoInt 15000), (''AccountNumber'', GoInt (Number account))]"
  let ?panic = "Panic ''interface conversion: interface {} is nil, not float64''"
  have signed: "jwt_SignedString x SigningMethodHS256 ?cs JWT_SECRET = Inr tokenString"
    using assms(2) by (simp add: createJWT_def)
  have names: "dom (Claims token) = {''ExpiresAt'', ''AccountNumber''}"
    if "validateJWT x tokenString = Inr token" for token
  proof -
    from that have "jwt_Parse x tokenString keyFunc = Inr token"
      by (simp add: validateJWT_def)
    from jwt_round_tripD(1) [OF assms(1) signed this] show ?thesis
      by simp
  qed
  have number: "Claims token ''AccountNumber'' = Some (GoFloat64 (real_of_int (Number account)))"
    if "validateJWT x tokenString = Inr token" and "\<bar>Number account\<bar> \<le> 2 ^ 53" for token
  proof -
    from that(1) have p: "jwt_Parse x tokenString keyFunc = Inr token"
      by (simp add: validateJWT_def)
    have "map_of ?cs ''AccountNumber'' = Some (GoInt (Number account))"
      by simp
    from jwt_round_tripD(2) [OF assms(1) signed p this that(2)] show ?thesis .
  qed
  have absent: "Claims token ''accountNumber'' = None"
    if "validateJWT x tokenString = Inr token" for token
  proof -
    have "''accountNumber'' \<notin> dom (Claims token)"
      using names [OF that] by simp
    then show ?thesis
      by (simp add: domIff)
  qed
  have st: "fst (GetAccountByID d (fst (getId r))) = d"
    by (rule GetAccountByID_state)
  have gate: "withJWTAuth x handleFunc w r d = Return (permissionDenied w, d) \<or>
      withJWTAuth x handleFunc w r d = ?panic"
  proof (cases "validateJWT x tokenString")
    case (Inl e)
    then show ?thesis
      using assms(3) by (simp add: withJWTAuth_def Let_def)
  next
    case (Inr token)
    obtain d' res where look: "GetAccountByID d (fst (getId r)) = (d', res)"
      by (cases "GetAccountByID d (fst (getId r))")
    with st have "d' = d"
      by simp
    with look Inr assms(3) absent [OF Inr] show ?thesis
      by (cases res) (simp_all add: withJWTAuth_def Let_def)
  qed
  have panic: "withJWTAuth x handleFunc w r d = ?panic"
    if "validateJWT x tokenString = Inr token" "Valid token"
      "GetAccountByID d (fst (getId r)) = (d, Inr stored)" for token stored
    using that assms(3) absent [OF that(1)] by (simp add: withJWTAuth_def Let_def)
  have first: "\<forall>token. validateJWT x tokenString = Inr token \<longrightarrow>
            dom (Claims token) = {''ExpiresAt'', ''AccountNumber''} \<and>
            (\<bar>Number account\<bar> \<le> 2 ^ 53 \<longrightarrow>
               Claims token ''AccountNumber'' = Some (GoFloat64 (real_of_int (Number account)))) \<and>
            Claims token ''accountNumber'' = None"
    using names number absent by (intro allI impI conjI)
  have third: "\<forall>token stored.
            validateJWT x tokenString = Inr token \<and> Valid token \<and>
            GetAccountByID d (fst (getId r)) = (d, Inr stored) \<longrightarrow>
            withJWTAuth x handleFunc w r d = ?panic"
    using panic by (intro allI impI) (elim conjE)
  from first gate third show ?thesis
    by (intro conjI)
qed

text \<open>
  The fixture library keeps the promise. The token minted for the stored account
  (number 42) and the token minted for an account numbered 7 are different tokens, each
  carries its number under \<open>AccountNumber\<close>, and \<^verbatim>\<open>GET /account/1\<close> with either panics in
  the gate.
\<close>

theorem createJWT_token_never_reaches_handler_witness:
  "jwt_round_trip fx \<and>
   createJWT fx ada = Inr ''minted-42'' \<and>
   createJWT fx (ada\<lparr>Number := 7\<rparr>) = Inr ''minted-7'' \<and>
   validateJWT fx ''minted-42'' =
     Inr \<lparr>Valid = True,
          Claims = map_of [(''ExpiresAt'', GoFloat64 15000), (''AccountNumber'', GoFloat64 42)]\<rparr> \<and>
   validateJWT fx ''minted-7'' =
     Inr \<lparr>Valid = True,
          Claims = map_of [(''ExpiresAt'', GoFloat64 15000), (''AccountNumber'', GoFloat64 7)]\<rparr> \<and>
   GetAccountByID db1 1 = (db1, Inr ada) \<and>
   Run fx account_id_route new_writer
     \<lparr>Method = ''GET'', Vars_id = ''1'', x_jwt_token = ''minted-42'', Body = ''''\<rparr> db1 =
   Panic ''interface conversion: interface {} is nil, not float64'' \<and>
   Run fx account_id_route new_writer
     \<lparr>Method = ''GET'', Vars_id = ''1'', x_jwt_token = ''minted-7'', Body = ''''\<rparr> db1 =
   Panic ''interface conversion: interface {} is nil, not float64''"
proof -
  let ?r = "\<lparr>Method = ''GET'', Vars_id = ''1'', x_jwt_token = ''minted-42'', Body = ''''\<rparr>"
  let ?r7 = "\<lparr>Method = ''GET'', Vars_id = ''1'', x_jwt_token = ''minted-7'', Body = ''''\<rparr>"
  let ?t = "\<lparr>Valid = True,
          Claims = map_of [(''ExpiresAt'', GoFloat64 15000), (''AccountNumber'', GoFloat64 42)]\<rparr>"
  let ?t7 = "\<lparr>Valid = True,
          Claims = map_of [(''ExpiresAt'', GoFloat64 15000), (''AccountNumber'', GoFloat64 7)]\<rparr>"
  let ?h = "makeHandleFunc (handleAccountWithId fx)"
  have m: "createJWT fx ada = Inr ''minted-42''"
    by (simp add: createJWT_def fx_def ada_def)
  have m7: "createJWT fx (ada\<lparr>Number := 7\<rparr>) = Inr ''minted-7''"
    by (simp add: createJWT_def fx_def ada_def)
  have v: "validateJWT fx ''minted-42'' = Inr ?t"
    by (simp add: validateJWT_def fx_def table_Parse_def known_tokens_def keyFunc_def
        SigningMethodHS256_def JWT_SECRET_def)
  have v7: "validateJWT fx ''minted-7'' = Inr ?t7"
    by (simp add: validateJWT_def fx_def table_Parse_def known_tokens_def keyFunc_def
        SigningMethodHS256_def JWT_SECRET_def)
  have g: "GetAccountByID db1 (fst (getId ?r)) = (db1, Inr ada)"
    by (simp add: getId_def Atoi_1 GetAccountByID_db1)
  have g7: "GetAccountByID db1 (fst (getId ?r7)) = (db1, Inr ada)"
    by (simp add: getId_def Atoi_1 GetAccountByID_db1)
  have x: "x_jwt_token ?r = ''minted-42''" and x7: "x_jwt_token ?r7 = ''minted-7''"
    by simp_all
  from createJWT_token_never_reaches_handler [OF jwt_round_trip_fx m x, of ?h new_writer db1] v g
  have p: "withJWTAuth fx ?h new_writer ?r db1 =
      Panic ''interface conversion: interface {} is nil, not float64''"
    by simp
  from createJWT_token_never_reaches_handler [OF jwt_round_trip_fx m7 x7, of ?h new_writer db1]
    v7 g7
  have p7: "withJWTAuth fx ?h new_writer ?r7 db1 =
      Panic ''interface conversion: interface {} is nil, not float64''"
    by simp
  from jwt_round_trip_fx m m7 v v7 p p7 show ?thesis
    by (simp add: GetAccountByID_db1)
qed


text \<open>
  C3. The code does not do what the claim says: when \<^verbatim>\<open>UpdateAccount\<close> returns an error,
  \<^verbatim>\<open>handleUpdateAccount\<close> returns nil, so \<^verbatim>\<open>makeHandleFunc\<close> writes no 400 and no message.
  The response writer is left as it was.
\<close>

theorem handleUpdateAccount_drops_store_error:
  assumes "getId r = (i, None)"
    and "Decode_CreateAccountRequest x (Body r) = Inr reqAccount"
    and "UpdateAccount d \<lparr>ID = i, FirstName = req_FirstName reqAccount,
           LastName = req_LastName reqAccount, Number = 0, Balance = 0, CreateAt = 0\<rparr> =
         (d', Inl err)"
  shows "handleUpdateAccount x w r d = ((w, d'), None) \<and>
         makeHandleFunc (handleUpdateAccount x) w r d = Return (w, d')"
  using assms by (simp add: handleUpdateAccount_def makeHandleFunc_def)

text \<open>
  Two such requests: \<^verbatim>\<open>PUT /account/7\<close> reaching the handler when no account has id 7
  (the store answers "account 7 not found"), and \<^verbatim>\<open>PUT /account/1\<close> through the gate with
  a matching token when the backend refuses the update. Nothing is written in either.
\<close>

theorem handleUpdateAccount_drops_store_error_witness:
  "getId \<lparr>Method = ''PUT'', Vars_id = ''7'', x_jwt_token = '''', Body = ''ada''\<rparr> = (7, None) \<and>
   Decode_CreateAccountRequest fx ''ada'' =
     Inr \<lparr>req_FirstName = ''Ada'', req_LastName = ''Lovelace''\<rparr> \<and>
   UpdateAccount db1 \<lparr>ID = 7, FirstName = ''Ada'', LastName = ''Lovelace'', Number = 0,
     Balance = 0, CreateAt = 0\<rparr> = (db1, Inl (Errorf ''account 7 not found'')) \<and>
   makeHandleFunc (handleUpdateAccount fx) new_writer
     \<lparr>Method = ''PUT'', Vars_id = ''7'', x_jwt_token = '''', Body = ''ada''\<rparr> db1 =
   Return (new_writer, db1) \<and>
   UpdateAccount (db1\<lparr>fault := refuse_UpdateNames\<rparr>)
     \<lparr>ID = 1, FirstName = ''Ada'', LastName = ''Lovelace'', Number = 0, Balance = 0,
       CreateAt = 0\<rparr> =
     (db1\<lparr>fault := refuse_UpdateNames\<rparr>,
      Inl (DriverError ''value too long for type character varying(50)'')) \<and>
   Run fx account_id_route new_writer
     \<lparr>Method = ''PUT'', Vars_id = ''1'', x_jwt_token = ''number-42'', Body = ''ada''\<rparr>
     (db1\<lparr>fault := refuse_UpdateNames\<rparr>) =
   Return (new_writer, db1\<lparr>fault := refuse_UpdateNames\<rparr>) \<and>
   status new_writer = None \<and> body new_writer = []"
proof -
  let ?r = "\<lparr>Method = ''PUT'', Vars_id = ''7'', x_jwt_token = '''', Body = ''ada''\<rparr>"
  let ?r1 = "\<lparr>Method = ''PUT'', Vars_id = ''1'', x_jwt_token = ''number-42'', Body = ''ada''\<rparr>"
  let ?d = "db1\<lparr>fault := refuse_UpdateNames\<rparr>"
  let ?req = "\<lparr>req_FirstName = ''Ada'', req_LastName = ''Lovelace''\<rparr>"
  have g: "getId ?r = (7, None)"
    by (simp add: getId_def Atoi_def is_digit_def)
  have b: "Decode_CreateAccountRequest fx (Body ?r) = Inr ?req"
    by (simp add: fx_def)
  have u: "UpdateAccount db1 \<lparr>ID = 7, FirstName = req_FirstName ?req,
      LastName = req_LastName ?req, Number = 0, Balance = 0, CreateAt = 0\<rparr> =
      (db1, Inl (Errorf ''account 7 not found''))"
    by (simp add: UpdateAccount_def Query_def db1_def ada_def no_fault_def first_row_def
        fmt_d_def digits.simps)
  have g1: "getId ?r1 = (1, None)"
    by (simp add: getId_def Atoi_1)
  have b1: "Decode_CreateAccountRequest fx (Body ?r1) = Inr ?req"
    by (simp add: fx_def)
  have u1: "UpdateAccount ?d \<lparr>ID = 1, FirstName = req_FirstName ?req,
      LastName = req_LastName ?req, Number = 0, Balance = 0, CreateAt = 0\<rparr> =
      (?d, Inl (DriverError ''value too long for type character varying(50)''))"
    by (simp add: UpdateAccount_def Query_def)
  have look: "GetAccountByID ?d (fst (getId ?r1)) = (?d, Inr ada)"
    by (simp add: g1 GetAccountByID_def Query_SelectByID first_row_def scanIntoAccount_def
        db1_def ada_def)
  have n: "int64 fx 42 = Number ada"
    by (simp add: int64_def trunc_eval ada_def)
  have pass: "Run fx account_id_route new_writer ?r1 ?d =
      makeHandleFunc (handleAccountWithId fx) new_writer ?r1 ?d"
    using withJWTAuth_pass [of fx ?r1 _ ?d ?d ada 42] validate_42 look n by simp
  have put: "makeHandleFunc (handleAccountWithId fx) new_writer ?r1 ?d =
      makeHandleFunc (handleUpdateAccount fx) new_writer ?r1 ?d"
    by (simp add: makeHandleFunc_def handleAccountWithId_def)
  from handleUpdateAccount_drops_store_error [OF g b u, of new_writer]
    handleUpdateAccount_drops_store_error [OF g1 b1 u1, of new_writer]
    g b u u1 pass put
  show ?thesis
    by (simp add: new_writer_def)
qed

text \<open>
  The handler behind the gate, taken alone: it answers a GET, PUT or DELETE request
  whose \<open>{id}\<close> segment \<^verbatim>\<open>Atoi\<close> rejects with 400 and the body
  \<open>{"Error": "Invalid id given <id>"}\<close>, and leaves the backend as it was. Through the
  route this answer is never sent: by the theorem on malformed ids above, the gate
  answers every such request with 403 in every state the server can reach.
\<close>

lemma handleAccountWithId_invalid_id:
  assumes "snd (Atoi (Vars_id r)) \<noteq> None"
    and "Method r = ''GET'' \<or> Method r = ''PUT'' \<or> Method r = ''DELETE''"
  shows "makeHandleFunc (handleAccountWithId x) new_writer r d =
           Return (json_response 400 (ApiError (''Invalid id given '' @ Vars_id r)), d)"
proof -
  from assms(1) obtain i where "getId r = (i, Some (Errorf (''Invalid id given '' @ Vars_id r)))"
    using getId_error by blast
  with assms(2) show ?thesis
    by (auto simp: makeHandleFunc_def handleAccountWithId_def handleGetAccountByID_def
        handleUpdateAccount_def handleDeleteAccount_def json_response_new StatusBadRequest_def)
qed

text \<open>
  C10, as stated (400 on every routed path for a method outside its table), fails on
  \<open>/account/{id}\<close>: the gate runs before the method is looked at.
  \<^verbatim>\<open>PATCH /account/1\<close> without a token is answered with 403.
\<close>

theorem Run_method_before_gate_counterexample:
  "Method \<lparr>Method = ''PATCH'', Vars_id = ''1'', x_jwt_token = '''', Body = ''''\<rparr> \<noteq> ''GET'' \<and>
   Method \<lparr>Method = ''PATCH'', Vars_id = ''1'', x_jwt_token = '''', Body = ''''\<rparr> \<noteq> ''PUT'' \<and>
   Method \<lparr>Method = ''PATCH'', Vars_id = ''1'', x_jwt_token = '''', Body = ''''\<rparr> \<noteq> ''DELETE'' \<and>
   Run fx account_id_route new_writer
     \<lparr>Method = ''PATCH'', Vars_id = ''1'', x_jwt_token = '''', Body = ''''\<rparr> db1 =
   Return (json_response 403 (ApiError ''Invalid token''), db1)"
  by (simp add: withJWTAuth_def validateJWT_def fx_def table_Parse_def known_tokens_def
      permissionDenied_new Let_def)

text \<open>
  C10, amended. On \<open>/account\<close> a method other than GET and POST, and on \<open>/transfer\<close> a
  method other than PUT, is answered with 400 and the body
  \<open>{"Error": "Method not allowed <method>"}\<close>. On \<open>/account/{id}\<close> a method other than GET,
  PUT and DELETE gets the same answer when the request passes the gate (valid token,
  account found, claim equal to its number). The backend is left as it was.
\<close>

theorem Run_method_not_allowed:
  "(Method r \<noteq> ''GET'' \<and> Method r \<noteq> ''POST'' \<longrightarrow>
      Run x account_route new_writer r d =
        Return (json_response 400 (ApiError (''Method not allowed '' @ Method r)), d)) \<and>
   (Method r \<noteq> ''PUT'' \<longrightarrow>
      Run x transfer_route new_writer r d =
        Return (json_response 400 (ApiError (''Method not allowed '' @ Method r)), d)) \<and>
   (Method r \<noteq> ''GET'' \<and> Method r \<noteq> ''PUT'' \<and> Method r \<noteq> ''DELETE'' \<and>
    validateJWT x (x_jwt_token r) = Inr token \<and> Valid token \<and>
    GetAccountByID d (fst (getId r)) = (d, Inr account) \<and>
    Claims token ''accountNumber'' = Some (GoFloat64 f) \<and> int64 x f = Number account \<longrightarrow>
      Run x account_id_route new_writer r d =
        Return (json_response 400 (ApiError (''Method not allowed '' @ Method r)), d))"
proof -
  have 1: "makeHandleFunc (handleAccount x) new_writer r d =
      Return (json_response 400 (ApiError (''Method not allowed '' @ Method r)), d)"
    if "Method r \<noteq> ''GET''" "Method r \<noteq> ''POST''"
    using that
    by (simp add: makeHandleFunc_def handleAccount_def json_response_new StatusBadRequest_def)
  have 2: "makeHandleFunc (handleTransfer x) new_writer r d =
      Return (json_response 400 (ApiError (''Method not allowed '' @ Method r)), d)"
    if "Method r \<noteq> ''PUT''"
    using that
    by (simp add: makeHandleFunc_def handleTransfer_def json_response_new StatusBadRequest_def)
  have 3: "makeHandleFunc (handleAccountWithId x) new_writer r d =
      Return (json_response 400 (ApiError (''Method not allowed '' @ Method r)), d)"
    if "Method r \<noteq> ''GET''" "Method r \<noteq> ''PUT''" "Method r \<noteq> ''DELETE''"
    using that
    by (simp add: makeHandleFunc_def handleAccountWithId_def json_response_new StatusBadRequest_def)
  show ?thesis
    using 1 2 3 by (auto simp: withJWTAuth_pass)
qed

theorem Run_method_not_allowed_witness:
  "Run fx account_route new_writer
     \<lparr>Method = ''DELETE'', Vars_id = '''', x_jwt_token = '''', Body = ''''\<rparr> db1 =
   Return (json_response 400 (ApiError ''Method not allowed DELETE''), db1) \<and>
   Run fx transfer_route new_writer
     \<lparr>Method = ''GET'', Vars_id = '''', x_jwt_token = '''', Body = ''''\<rparr> db1 =
   Return (json_response 400 (ApiError ''Method not allowed GET''), db1) \<and>
   validateJWT fx ''number-42'' =
     Inr \<lparr>Valid = True, Claims = map_of [(''accountNumber'', GoFloat64 42)]\<rparr> \<and>
   GetAccountByID db1 1 = (db1, Inr ada) \<and> int64 fx 42 = Number ada \<and>
   Run fx account_id_route new_writer
     \<lparr>Method = ''PATCH'', Vars_id = ''1'', x_jwt_token = ''number-42'', Body = ''''\<rparr> db1 =
   Return (json_response 400 (ApiError ''Method not allowed PATCH''), db1)"
proof -
  let ?t = "\<lparr>Valid = True, Claims = map_of [(''accountNumber'', GoFloat64 42)]\<rparr>"
  let ?r = "\<lparr>Method = ''PATCH'', Vars_id = ''1'', x_jwt_token = ''number-42'', Body = ''''\<rparr>"
  have n: "int64 fx 42 = Number ada"
    by (simp add: int64_def trunc_eval ada_def)
  have g: "GetAccountByID db1 (fst (getId ?r)) = (db1, Inr ada)"
    by (simp add: getId_def Atoi_1 GetAccountByID_db1)
  show ?thesis
    using Run_method_not_allowed
      [of "\<lparr>Method = ''DELETE'', Vars_id = '''', x_jwt_token = '''', Body = ''''\<rparr>" fx db1]
      Run_method_not_allowed
      [of "\<lparr>Method = ''GET'', Vars_id = '''', x_jwt_token = '''', Body = ''''\<rparr>" fx db1]
      Run_method_not_allowed [of ?r fx db1 ?t ada 42]
      validate_42 n g
    by (simp add: GetAccountByID_db1)
qed

end
